theory Spec2Isabelle
  imports Main "HOL-Library.Sublist" "HOL-Library.Char_ord" "HOL-Library.List_Lexorder"
begin

section \<open>Go strings\<close>

text \<open>
  A Go \<^verbatim>\<open>string\<close> is a sequence of bytes, here a \<^typ>\<open>string\<close> (a list of 8-bit
  characters); \<^verbatim>\<open>len(s)\<close> is \<^term>\<open>length s\<close> and \<^verbatim>\<open>s[:n]\<close> is \<^term>\<open>take n s\<close>.
  The functions of package \<^verbatim>\<open>strings\<close> that look at Unicode properties
  (\<^verbatim>\<open>TrimSpace\<close>, \<^verbatim>\<open>Fields\<close>, \<^verbatim>\<open>ToLower\<close>) are written out for the ASCII range:
  the six ASCII white space bytes and the letters A to Z. A byte from 0x80 on is neither
  white space nor a letter here, so the model is that of the program on ASCII text.
\<close>

definition isSpace :: "char \<Rightarrow> bool" where
  "isSpace c = (c = CHR 0x09 \<or> c = CHR 0x0A \<or> c = CHR 0x0B \<or> c = CHR 0x0C
                \<or> c = CHR 0x0D \<or> c = CHR '' '')"

definition TrimSpace :: "string \<Rightarrow> string" where
  "TrimSpace s = rev (dropWhile isSpace (rev (dropWhile isSpace s)))"

text \<open>\<^verbatim>\<open>strings.TrimLeft(s, cutset)\<close> and \<^verbatim>\<open>strings.Trim(s, cutset)\<close>.\<close>

definition TrimLeft :: "string \<Rightarrow> string \<Rightarrow> string" where
  "TrimLeft s cutset = dropWhile (\<lambda>c. c \<in> set cutset) s"

definition Trim :: "string \<Rightarrow> string \<Rightarrow> string" where
  "Trim s cutset =
     rev (dropWhile (\<lambda>c. c \<in> set cutset) (rev (dropWhile (\<lambda>c. c \<in> set cutset) s)))"

definition HasPrefix :: "string \<Rightarrow> string \<Rightarrow> bool" where
  "HasPrefix s p = prefix p s"

definition HasSuffix :: "string \<Rightarrow> string \<Rightarrow> bool" where
  "HasSuffix s x = suffix x s"

definition TrimSuffix :: "string \<Rightarrow> string \<Rightarrow> string" where
  "TrimSuffix s x = (if HasSuffix s x then take (length s - length x) s else s)"

definition toLowerChar :: "char \<Rightarrow> char" where
  "toLowerChar c =
     (if (65::nat) \<le> of_char c \<and> of_char c \<le> (90::nat) then char_of (of_char c + (32::nat)) else c)"

definition ToLower :: "string \<Rightarrow> string" where
  "ToLower s = map toLowerChar s"

text \<open>
  \<^verbatim>\<open>strings.Fields\<close>: the maximal runs of bytes that are not white space. The first
  argument of the loop is the field being read.
\<close>

fun fieldsFrom :: "string \<Rightarrow> string \<Rightarrow> string list" where
  "fieldsFrom cur [] = (if cur = [] then [] else [cur])"
| "fieldsFrom cur (c # cs) =
     (if isSpace c then (if cur = [] then fieldsFrom [] cs else cur # fieldsFrom [] cs)
      else fieldsFrom (cur @ [c]) cs)"

definition Fields :: "string \<Rightarrow> string list" where
  "Fields s = fieldsFrom [] s"

fun Join :: "string list \<Rightarrow> string \<Rightarrow> string" where
  "Join [] sep = []"
| "Join [x] sep = x"
| "Join (x # y # ys) sep = x @ sep @ Join (y # ys) sep"

fun Contains :: "string \<Rightarrow> string \<Rightarrow> bool" where
  "Contains [] sub = (sub = [])"
| "Contains (c # s) sub = (prefix sub (c # s) \<or> Contains s sub)"

text \<open>
  \<^verbatim>\<open>strings.ReplaceAll(s, old, new)\<close> replaces the non-overlapping occurrences of
  \<^verbatim>\<open>old\<close> from left to right. With an empty \<^verbatim>\<open>old\<close> Go inserts \<^verbatim>\<open>new\<close> before
  every character and at the end; the program never calls it so.
\<close>

function ReplaceAll :: "string \<Rightarrow> string \<Rightarrow> string \<Rightarrow> string" where
  "ReplaceAll [] old new = (if old = [] then new else [])"
| "ReplaceAll (c # s) old new =
     (if old = [] then new @ c # ReplaceAll s old new
      else if prefix old (c # s) then new @ ReplaceAll (drop (length old) (c # s)) old new
      else c # ReplaceAll s old new)"
  by pat_completeness auto
termination
  by (relation "measure (\<lambda>(s, old, new). length s)") (auto simp: Suc_diff_le)

text \<open>The decimal digits of a number, as \<^verbatim>\<open>%d\<close> prints it.\<close>

definition digitChar :: "nat \<Rightarrow> char" where
  "digitChar d = char_of (48 + d)"

fun itoa :: "nat \<Rightarrow> string" where
  "itoa n = (if n < 10 then [digitChar n] else itoa (n div 10) @ [digitChar (n mod 10)])"

declare itoa.simps [simp del]
declare ReplaceAll.simps [simp del]


section \<open>Package validation: sanitising a file name\<close>

definition MaxFileNameLength :: nat where
  "MaxFileNameLength = 100"

text \<open>
  \<^verbatim>\<open>multipleDashPattern.ReplaceAllString(name, "-")\<close> with the pattern \<^verbatim>\<open>-+\<close>: every
  maximal run of dashes becomes one dash. The flag says that the previous character was
  a dash.
\<close>

fun collapseDashes :: "bool \<Rightarrow> string \<Rightarrow> string" where
  "collapseDashes inRun [] = []"
| "collapseDashes inRun (c # s) =
     (if c = CHR ''-'' then (if inRun then collapseDashes True s else c # collapseDashes True s)
      else c # collapseDashes False s)"

definition replaceDangerous :: "string \<Rightarrow> string" where
  "replaceDangerous name0 =
     (let name = ReplaceAll name0 ''/'' ''-'';
          name = ReplaceAll name [CHR 0x5C] ''-'';
          name = ReplaceAll name '':'' ''-'';
          name = ReplaceAll name ''*'' ''-'';
          name = ReplaceAll name ''?'' ''-'';
          name = ReplaceAll name [CHR 0x22] ''-'';
          name = ReplaceAll name ''<'' ''-'';
          name = ReplaceAll name ''>'' ''-'';
          name = ReplaceAll name ''|'' ''-''
      in name)"

definition SanitizeFileName :: "string \<Rightarrow> string" where
  "SanitizeFileName name0 =
     (let name = replaceDangerous name0;
          name = collapseDashes False name;
          name = Trim name ''-'';
          name = (if length name > MaxFileNameLength then take MaxFileNameLength name else name);
          name = (if name = [] then ''unnamed'' else name)
      in name)"

section \<open>Package classifier: sections and context files\<close>

definition MinWordCountForFile :: nat where
  "MinWordCountForFile = 10"

definition MaxDescriptiveLength :: nat where
  "MaxDescriptiveLength = 60"

definition TokenEstimationRatio :: nat where
  "TokenEstimationRatio = 4"

record ContentSection =
  Title :: string
  Content :: string
  StartLine :: nat
  EndLine :: nat
  WordCount :: nat

text \<open>
  The fields \<^verbatim>\<open>Content\<close> and \<^verbatim>\<open>WordCount\<close> of \<^verbatim>\<open>ContextFile\<close> are
  \<open>FileContent\<close> and \<open>FileWordCount\<close> here, the names being those of the
  section's fields already.
\<close>

record ContextFile =
  FileName :: string
  FileContent :: string
  FileWordCount :: nat
  TokenCount :: nat
  Summary :: string
  KeyTerms :: "string list"

datatype error =
    ErrReadFile
  | ErrScanning
  | ErrInvalidSource
  | ErrParse error
  | ErrAnalyze error
  | ErrNoContentSections
  | ErrInvalidInputs
  | ErrBackup
  | ErrConversion
  | ErrReadTemplate
  | ErrWriteTemplate
  | ErrReadDir
  | ErrInvalidProjectPath
  | ErrInvalidTemplate
  | ErrContextDirNotFound
  | ErrScanChapters error
  | ErrIndexFilePath
  | ErrConfigureTemplate
  | ErrApplyTemplate
  | ErrUpdateTemplate error

subsection \<open>Reading the lines: \<^verbatim>\<open>bufio.Scanner\<close> with \<^verbatim>\<open>ScanLines\<close>\<close>

text \<open>
  The scanner returns the lines without their end-of-line marker (a line feed, with one
  carriage return before it dropped); a last line without line feed is returned when it
  is not empty. The scanner's buffer holds at most \<^verbatim>\<open>MaxScanTokenSize\<close> bytes: a line
  that does not fit, line feed included, stops the scan with \<^verbatim>\<open>ErrTooLong\<close>, and so
  does a last line without line feed that fills the buffer. \<^term>\<open>scanFrom tok rest\<close>
  gives the lines read until the scan stops and whether it stopped on that error;
  \<^term>\<open>tok\<close> is the part of the current line already read.
\<close>

definition MaxScanTokenSize :: nat where
  "MaxScanTokenSize = 64 * 1024"

definition dropCR :: "string \<Rightarrow> string" where
  "dropCR data = (if data \<noteq> [] \<and> last data = CHR 0x0D then butlast data else data)"

fun scanFrom :: "string \<Rightarrow> string \<Rightarrow> string list \<times> bool" where
  "scanFrom tok [] =
     (if tok = [] then ([], False)
      else if MaxScanTokenSize \<le> length tok then ([], True)
      else ([dropCR tok], False))"
| "scanFrom tok (c # cs) =
     (if c = CHR 0x0A then
        (if MaxScanTokenSize < length tok + 1 then ([], True)
         else (case scanFrom [] cs of (ls, tooLong) \<Rightarrow> (dropCR tok # ls, tooLong)))
      else scanFrom (tok @ [c]) cs)"

definition scanLines :: "string \<Rightarrow> string list \<times> bool" where
  "scanLines content = scanFrom [] content"

subsection \<open>parseSourceFile\<close>

definition isHeader :: "string \<Rightarrow> bool" where
  "isHeader line = HasPrefix (TrimSpace line) ''##''"

definition headerTitle :: "string \<Rightarrow> string" where
  "headerTitle line = TrimSpace (TrimLeft line ''#'')"

text \<open>
  Closing the current section (a title and a start line, when there is one) over the
  buffer: the section is appended only with enough words.
\<close>

definition closeSection ::
  "(string \<times> nat) option \<Rightarrow> string \<Rightarrow> nat \<Rightarrow> ContentSection list \<Rightarrow> ContentSection list" where
  "closeSection currentSection contentBuffer endLine sections =
     (case currentSection of
        None \<Rightarrow> sections
      | Some (title, startLine) \<Rightarrow>
          (let content = TrimSpace contentBuffer;
               wordCount = length (Fields content)
           in if wordCount \<ge> MinWordCountForFile
              then sections @ [\<lparr>Title = title, Content = content, StartLine = startLine,
                                EndLine = endLine, WordCount = wordCount\<rparr>]
              else sections))"

text \<open>
  The loop over the scanned lines; its state is the line number, the current section,
  the content buffer and the sections kept so far. At the end of the lines the final
  section is closed.
\<close>

fun parseLines ::
  "string list \<Rightarrow> nat \<Rightarrow> (string \<times> nat) option \<Rightarrow> string \<Rightarrow> ContentSection list
     \<Rightarrow> ContentSection list" where
  "parseLines [] lineNum currentSection contentBuffer sections =
     closeSection currentSection contentBuffer lineNum sections"
| "parseLines (line # rest) lineNum0 currentSection contentBuffer sections =
     (let lineNum = lineNum0 + 1 in
      if isHeader line then
        parseLines rest lineNum (Some (headerTitle line, lineNum)) []
          (closeSection currentSection contentBuffer (lineNum - 1) sections)
      else if currentSection \<noteq> None then
        parseLines rest lineNum currentSection (contentBuffer @ line @ [CHR 0x0A]) sections
      else parseLines rest lineNum currentSection contentBuffer sections)"

text \<open>
  The argument is what \<^verbatim>\<open>os.ReadFile\<close> returned: \<^term>\<open>None\<close> when it failed. The
  scanner's error is looked at after the loop and the final section.
\<close>

definition parseSourceFile :: "string option \<Rightarrow> error + ContentSection list" where
  "parseSourceFile readResult =
     (case readResult of
        None \<Rightarrow> Inl ErrReadFile
      | Some content \<Rightarrow>
          (case scanLines content of
             (lines, tooLong) \<Rightarrow>
               (let sections = parseLines lines 0 None [] []
                in if tooLong then Inl ErrScanning else Inr sections)))"

subsection \<open>Descriptors\<close>

definition stopWords :: "string list" where
  "stopWords = [''the'', ''and'', ''or'', ''but'', ''in'', ''on'', ''at'', ''to'', ''for'', ''of'',
                ''with'', ''by'']"

definition extractTitleDescriptor :: "string \<Rightarrow> string" where
  "extractTitleDescriptor title0 =
     (let title = ToLower title0;
          words = Fields title;
          meaningful = filter (\<lambda>word. \<not> (word \<in> set stopWords) \<and> length word > 2) words;
          meaningful = (if length meaningful > 3 then take 3 meaningful else meaningful)
      in Join meaningful ''-'')"

text \<open>
  \<^verbatim>\<open>regexp.MatchString(pattern, content)\<close> for the patterns of the two tables, which are
  alternatives of plain words separated by \<^verbatim>\<open>|\<close>: the pattern matches when one of its
  alternatives occurs in the content.
\<close>

fun splitOn :: "char \<Rightarrow> string \<Rightarrow> string \<Rightarrow> string list" where
  "splitOn sep cur [] = [cur]"
| "splitOn sep cur (c # cs) =
     (if c = sep then cur # splitOn sep [] cs else splitOn sep (cur @ [c]) cs)"

definition MatchString :: "string \<Rightarrow> string \<Rightarrow> bool" where
  "MatchString pattern s = list_ex (Contains s) (splitOn CHR ''|'' [] pattern)"

type_synonym patternTable = "(string \<times> string) list"

text \<open>The two map literals, in the order of their declaration.\<close>

definition techPatterns :: patternTable where
  "techPatterns =
     [(''postgresql|postgres|pg'', ''postgresql''),
      (''mongodb|mongo'', ''mongodb''),
      (''redis'', ''redis''),
      (''kubernetes|k8s'', ''kubernetes''),
      (''docker'', ''docker''),
      (''jwt|oauth'', ''oauth''),
      (''stripe|payment'', ''payments''),
      (''webhook'', ''webhooks''),
      (''graphql|gql'', ''graphql''),
      (''rest|api'', ''rest-api'')]"

definition funcPatterns :: patternTable where
  "funcPatterns =
     [(''authentication|auth|login'', ''authentication''),
      (''authorization|permission'', ''authorization''),
      (''database|schema|model'', ''database''),
      (''deployment|deploy|production'', ''deployment''),
      (''monitoring|metrics|logging'', ''monitoring''),
      (''security|encryption|compliance'', ''security''),
      (''testing|test|spec'', ''testing''),
      (''configuration|config|setup'', ''configuration'')]"

text \<open>
  The tables are Go maps, and \<^verbatim>\<open>for pattern, descriptor := range m\<close> visits the entries
  of a map in an order that the language leaves unspecified and that the runtime
  changes from one loop to the next. The order of one such loop is an argument of the
  model: a list that holds every entry of the map once.
\<close>

definition rangeOrder :: "patternTable \<Rightarrow> patternTable \<Rightarrow> bool" where
  "rangeOrder m order = (distinct order \<and> set order = set m)"

fun firstMatch :: "patternTable \<Rightarrow> string \<Rightarrow> string" where
  "firstMatch [] content = []"
| "firstMatch ((pattern, descriptor) # rest) content =
     (if MatchString pattern content then descriptor else firstMatch rest content)"

definition extractTechnologyDescriptor :: "patternTable \<Rightarrow> string \<Rightarrow> string" where
  "extractTechnologyDescriptor techOrder content = firstMatch techOrder content"

definition extractFunctionDescriptor :: "patternTable \<Rightarrow> string \<Rightarrow> string" where
  "extractFunctionDescriptor funcOrder content = firstMatch funcOrder content"

definition generateDescriptiveFileName ::
  "patternTable \<Rightarrow> patternTable \<Rightarrow> ContentSection \<Rightarrow> string" where
  "generateDescriptiveFileName techOrder funcOrder section =
     (let content = ToLower (Title section @ '' '' @ Content section);
          titleDesc = extractTitleDescriptor (Title section);
          descriptors = (if titleDesc \<noteq> [] then [titleDesc] else []);
          techDesc = extractTechnologyDescriptor techOrder content;
          descriptors = (if techDesc \<noteq> [] then descriptors @ [techDesc] else descriptors);
          funcDesc = extractFunctionDescriptor funcOrder content;
          descriptors = (if funcDesc \<noteq> [] then descriptors @ [funcDesc] else descriptors);
          fileName = Join descriptors ''-'';
          fileName = SanitizeFileName fileName;
          fileName = (if length fileName > MaxDescriptiveLength
                      then take MaxDescriptiveLength fileName else fileName);
          fileName = (if fileName = [] then ''general-context'' else fileName)
      in fileName @ ''.md'')"

definition termPatterns :: "string list" where
  "termPatterns =
     [''api'', ''endpoint'', ''database'', ''schema'', ''authentication'', ''authorization'',
      ''security'', ''deployment'', ''monitoring'', ''testing'', ''configuration'',
      ''jwt'', ''oauth'', ''postgresql'', ''mongodb'', ''redis'', ''kubernetes'', ''docker'']"

definition extractKeyTerms :: "ContentSection \<Rightarrow> string list" where
  "extractKeyTerms section =
     (let content = ToLower (Content section)
      in filter (\<lambda>term. Contains content term) termPatterns)"

text \<open>
  \<^verbatim>\<open>strings.Split(content, ".")[0]\<close> is the content up to its first full stop.
\<close>

definition generateContentSummary :: "ContentSection \<Rightarrow> string" where
  "generateContentSummary section =
     (let content = Content section;
          sentence0 = takeWhile (\<lambda>c. c \<noteq> CHR ''.'') content
      in if length sentence0 > 10 then
           (let summary = TrimSpace sentence0
            in if length summary > 100 then take 100 summary @ ''...'' else summary)
         else if length content > 100 then take 100 content @ ''...''
         else content)"

text \<open>
  The loop over the sections. Each call of \<^verbatim>\<open>generateDescriptiveFileName\<close> ranges
  over the two maps anew: \<^term>\<open>orders i\<close> gives the two orders of the call for the
  section at index \<^term>\<open>i\<close>.
\<close>

fun generateContextFiles ::
  "(nat \<Rightarrow> patternTable \<times> patternTable) \<Rightarrow> nat \<Rightarrow> ContentSection list \<Rightarrow> ContextFile list" where
  "generateContextFiles orders i [] = []"
| "generateContextFiles orders i (section # rest) =
     (let fileName = generateDescriptiveFileName (fst (orders i)) (snd (orders i)) section;
          keyTerms = extractKeyTerms section;
          summary = generateContentSummary section;
          tokenCount = length (Content section) div TokenEstimationRatio;
          contextFile = \<lparr>FileName = fileName, FileContent = Content section,
                         FileWordCount = WordCount section, TokenCount = tokenCount,
                         Summary = summary, KeyTerms = keyTerms\<rparr>
      in contextFile # generateContextFiles orders (i + 1) rest)"

text \<open>
  \<^verbatim>\<open>AnalyzeAndGenerate\<close>: the first argument says whether \<^verbatim>\<open>ValidateMarkdownFile\<close>
  accepted the source file, the second is the result of reading it.
\<close>

definition AnalyzeAndGenerate ::
  "bool \<Rightarrow> string option \<Rightarrow> (nat \<Rightarrow> patternTable \<times> patternTable) \<Rightarrow> error + ContextFile list" where
  "AnalyzeAndGenerate markdownValid readResult orders =
     (if \<not> markdownValid then Inl ErrInvalidSource
      else case parseSourceFile readResult of
             Inl e \<Rightarrow> Inl (ErrParse e)
           | Inr sections \<Rightarrow> Inr (generateContextFiles orders 0 sections))"

section \<open>Package cmd: the index file\<close>

definition chapterPlaceholder :: string where
  "chapterPlaceholder =
     ''(Chapter files will be listed here when you run `contindex update` or `contindex convert`)''"

definition contextPlaceholder :: string where
  "contextPlaceholder =
     ''(Context files will be listed here when you run `contindex update` or `contindex convert`)''"

definition placeholders :: "string list" where
  "placeholders = [chapterPlaceholder, contextPlaceholder]"

text \<open>
  The chapter list that the loop writes into the string builder, one line
  \<^verbatim>\<open>"%d. **%s** - `%s/%s`\n"\<close> for each file, numbered from \<^term>\<open>i + 1\<close>.
\<close>

fun chapterList :: "nat \<Rightarrow> ContextFile list \<Rightarrow> string \<Rightarrow> string" where
  "chapterList i [] contextDirName = []"
| "chapterList i (file # rest) contextDirName =
     (let descriptiveName = TrimSuffix (FileName file) ''.md''
      in itoa (i + 1) @ ''. **'' @ descriptiveName @ ''** - `'' @ contextDirName @ ''/''
           @ FileName file @ ''`'' @ [CHR 0x0A])
     @ chapterList (i + 1) rest contextDirName"

text \<open>The text of the index file after the loop over the placeholders.\<close>

definition updatedContent :: "string \<Rightarrow> ContextFile list \<Rightarrow> string \<Rightarrow> string" where
  "updatedContent content contextFiles contextDirName =
     foldl (\<lambda>updated placeholder.
              ReplaceAll updated placeholder (TrimSpace (chapterList 0 contextFiles contextDirName)))
       content placeholders"

text \<open>
  \<^verbatim>\<open>UpdateTemplateWithChapters\<close>: the first argument is the result of reading the main
  file, the second says whether writing it succeeds; the result is the text written.
\<close>

definition UpdateTemplateWithChapters ::
  "string option \<Rightarrow> bool \<Rightarrow> ContextFile list \<Rightarrow> string \<Rightarrow> error + string" where
  "UpdateTemplateWithChapters readResult writable contextFiles contextDirName =
     (case readResult of
        None \<Rightarrow> Inl ErrReadTemplate
      | Some content \<Rightarrow>
          if writable then Inr (updatedContent content contextFiles contextDirName)
          else Inl ErrWriteTemplate)"

section \<open>Package cmd: convert\<close>

text \<open>
  What a run of \<^verbatim>\<open>convert\<close> finds outside the program: the flags, the verdicts of the
  validation and of the file system, the source text and the orders of the map loops.
\<close>

record convertEnv =
  dryRun :: bool
  noBackup :: bool
  inputsValid :: bool
  backupCreated :: bool
  sourceIsMarkdown :: bool
  sourceContent :: "string option"
  mapOrders :: "nat \<Rightarrow> patternTable \<times> patternTable"
  conversionWritten :: bool

text \<open>
  A call returns an error, or returns normally with what it printed, or panics: Go's
  integer division panics on a zero divisor.
\<close>

datatype report =
    Preview nat nat nat
  | Converted nat nat nat nat

datatype outcome = Panic | Failed error | Done report

definition analyzeAndGenerateFiles :: "convertEnv \<Rightarrow> error + ContextFile list" where
  "analyzeAndGenerateFiles env =
     (case AnalyzeAndGenerate (sourceIsMarkdown env) (sourceContent env) (mapOrders env) of
        Inl e \<Rightarrow> Inl (ErrAnalyze e)
      | Inr contextFiles \<Rightarrow>
          if length contextFiles = 0 then Inl ErrNoContentSections else Inr contextFiles)"

text \<open>
  The report of \<^verbatim>\<open>previewConversion\<close> holds the number of files, the total of the
  tokens and the average per file.
\<close>

definition previewConversion :: "ContextFile list \<Rightarrow> outcome" where
  "previewConversion contextFiles =
     (let totalTokens = sum_list (map TokenCount contextFiles)
      in if length contextFiles = 0 then Panic
         else Done (Preview (length contextFiles) totalTokens
                      (totalTokens div length contextFiles)))"

text \<open>
  The report of \<^verbatim>\<open>printConversionSuccess\<close> holds the number of files, the totals of
  the words and of the tokens, and the average of the tokens per chapter.
\<close>

definition printConversionSuccess :: "ContextFile list \<Rightarrow> outcome" where
  "printConversionSuccess contextFiles =
     (let totalWords = sum_list (map FileWordCount contextFiles);
          totalTokens = sum_list (map TokenCount contextFiles)
      in if length contextFiles = 0 then Panic
         else Done (Converted (length contextFiles) totalWords totalTokens
                      (totalTokens div length contextFiles)))"

definition runConvert :: "convertEnv \<Rightarrow> outcome" where
  "runConvert env =
     (if \<not> inputsValid env then Failed ErrInvalidInputs
      else if \<not> dryRun env \<and> \<not> noBackup env \<and> \<not> backupCreated env then Failed ErrBackup
      else case analyzeAndGenerateFiles env of
             Inl e \<Rightarrow> Failed e
           | Inr contextFiles \<Rightarrow>
               if dryRun env then previewConversion contextFiles
               else if \<not> conversionWritten env then Failed ErrConversion
               else printConversionSuccess contextFiles)"

section \<open>Package cmd: update\<close>

record dirEntry =
  entryName :: string
  entryIsDir :: bool

text \<open>
  \<^verbatim>\<open>os.ReadDir\<close> returns the entries of a directory sorted by file name. Its argument
  here is what the directory holds, in any order, or \<^term>\<open>None\<close> when the directory
  cannot be read.
\<close>

definition ReadDir :: "dirEntry list option \<Rightarrow> error + dirEntry list" where
  "ReadDir dir =
     (case dir of None \<Rightarrow> Inl ErrReadDir | Some entries \<Rightarrow> Inr (sort_key entryName entries))"

text \<open>The struct literal \<^verbatim>\<open>ContextFile{FileName: name}\<close>: the other fields are zero.\<close>

definition contextFileNamed :: "string \<Rightarrow> ContextFile" where
  "contextFileNamed name =
     \<lparr>FileName = name, FileContent = [], FileWordCount = 0, TokenCount = 0,
      Summary = [], KeyTerms = []\<rparr>"

fun scanEntries :: "dirEntry list \<Rightarrow> ContextFile list" where
  "scanEntries [] = []"
| "scanEntries (entry # rest) =
     (if entryIsDir entry \<or> \<not> HasSuffix (entryName entry) ''.md'' then scanEntries rest
      else contextFileNamed (entryName entry) # scanEntries rest)"

definition scanContextDirectory :: "dirEntry list option \<Rightarrow> error + ContextFile list" where
  "scanContextDirectory dir =
     (case ReadDir dir of Inl e \<Rightarrow> Inl e | Inr entries \<Rightarrow> Inr (scanEntries entries))"

text \<open>
  What a run of \<^verbatim>\<open>update\<close> finds outside the program: the verdicts of the
  validation, what the context directory holds, whether the path of the index file is
  known, the flag \<^verbatim>\<open>--force\<close>, the answer of \<^verbatim>\<open>checkIfUpdateNeeded\<close>
  (\<^term>\<open>None\<close> when it returned an error), whether the template was configured and
  applied, and the index file as it is read and written afterwards.
\<close>

record updateEnv =
  projectPathValid :: bool
  templateValid :: bool
  contextDirExists :: bool
  contextDirEntries :: "dirEntry list option"
  indexFileKnown :: bool
  forceUpdate :: bool
  updateNeeded :: "bool option"
  templateConfigured :: bool
  templateApplied :: bool
  indexContent :: "string option"
  indexWritable :: bool

text \<open>
  \<^verbatim>\<open>runUpdate\<close> returns an error or returns normally; the result then holds the text
  written to the index file, if the index was regenerated. The call of
  \<^verbatim>\<open>UpdateTemplateWithChapters\<close> in this command gives no directory name: it is the
  one of the function's earlier version, which writes \<^verbatim>\<open>context\<close>.
\<close>

definition runUpdate :: "updateEnv \<Rightarrow> error + string option" where
  "runUpdate env =
     (if \<not> projectPathValid env then Inl ErrInvalidProjectPath
      else if \<not> templateValid env then Inl ErrInvalidTemplate
      else if \<not> contextDirExists env then Inl ErrContextDirNotFound
      else case scanContextDirectory (contextDirEntries env) of
             Inl e \<Rightarrow> Inl (ErrScanChapters e)
           | Inr chapterFiles \<Rightarrow>
               if length chapterFiles = 0 then Inr None
               else if \<not> indexFileKnown env then Inl ErrIndexFilePath
               else if \<not> forceUpdate env \<and> updateNeeded env = Some False then Inr None
               else if \<not> templateConfigured env then Inl ErrConfigureTemplate
               else if \<not> templateApplied env then Inl ErrApplyTemplate
               else case UpdateTemplateWithChapters (indexContent env) (indexWritable env)
                           chapterFiles ''context'' of
                      Inl e \<Rightarrow> Inl (ErrUpdateTemplate e)
                    | Inr updated \<Rightarrow> Inr (Some updated))"

section \<open>Vocabulary of the statements\<close>

text \<open>
  A document seen as its header blocks: the lines before the first header, then for each
  header line the lines of its body. \<^term>\<open>blockLines\<close> gives the lines of the blocks
  back, \<^term>\<open>bodyText\<close> the text of a body (each line with its line feed) and
  \<^term>\<open>blockSections n\<close> the section of each block, when \<^term>\<open>n\<close> lines come before
  the first block.
\<close>

definition bodyText :: "string list \<Rightarrow> string" where
  "bodyText body = concat (map (\<lambda>line. line @ [CHR 0x0A]) body)"


fun blockSections :: "nat \<Rightarrow> (string \<times> string list) list \<Rightarrow> ContentSection list" where
  "blockSections n [] = []"
| "blockSections n ((header, body) # blocks) =
     \<lparr>Title = headerTitle header, Content = TrimSpace (bodyText body),
      StartLine = n + 1, EndLine = n + 1 + length body,
      WordCount = length (Fields (bodyText body))\<rparr>
     # blockSections (n + 1 + length body) blocks"



text \<open>
  The characters that the spec allows in an identifier, the nine characters that
  \<^verbatim>\<open>SanitizeFileName\<close> replaces by a dash, and the characters of a plain title:
  ASCII letters, digits, the dash, ASCII white space and the nine replaced characters.
\<close>

definition identifierChars :: "char set" where
  "identifierChars = set ''abcdefghijklmnopqrstuvwxyz0123456789-''"

definition replacedChars :: "char set" where
  "replacedChars = set (''/'' @ [CHR 0x5C] @ '':*?'' @ [CHR 0x22] @ ''<>|'')"

definition plainTitleChars :: "char set" where
  "plainTitleChars =
     set (''ABCDEFGHIJKLMNOPQRSTUVWXYZabcdefghijklmnopqrstuvwxyz0123456789-''
          @ [CHR 0x09, CHR 0x0A, CHR 0x0B, CHR 0x0C, CHR 0x0D, CHR '' '']
          @ ''/'' @ [CHR 0x5C] @ '':*?'' @ [CHR 0x22] @ ''<>|'')"

section \<open>Properties of the string functions\<close>

subsection \<open>ReplaceAll\<close>




lemma Contains_Nil_sub: "Contains s []"
  by (cases s) simp_all


lemma Contains_iff_sublist: "Contains s sub \<longleftrightarrow> sublist sub s"
  by (induction s) (auto simp: sublist_Cons_right)









subsection \<open>The two placeholders and the chapter list\<close>










subsection \<open>Trimming\<close>



subsection \<open>The chapter list\<close>














section \<open>The index file: replacing the placeholders\<close>







section \<open>Segmentation\<close>

subsection \<open>Fields\<close>





subsection \<open>The scanner and the loop over the lines\<close>

lemma scanFrom_no_line_feed:
  assumes "CHR 0x0A \<notin> set s"
  shows "scanFrom tok s =
     (if tok @ s = [] then ([], False)
      else if MaxScanTokenSize \<le> length (tok @ s) then ([], True)
      else ([dropCR (tok @ s)], False))"
  using assms by (induction s arbitrary: tok) auto

lemma scanLines_line_too_long:
  "scanLines (replicate MaxScanTokenSize CHR ''a'') = ([], True)"
  by (simp add: scanLines_def scanFrom_no_line_feed) (simp add: MaxScanTokenSize_def)

text \<open>
  A header followed by eleven words on one line that is too long for the scanner: the
  segmentation returns the scanner's error and no section.
\<close>

lemma parseSourceFile_line_too_long:
  "parseSourceFile
     (Some (''## Title'' @ [CHR 0x0A]
            @ (''a b c d e f g h i j '' @ replicate MaxScanTokenSize CHR ''x'')))
   = Inl ErrScanning"
proof -
  let ?line = "''a b c d e f g h i j '' @ replicate MaxScanTokenSize CHR ''x''"
  have "CHR 0x0A \<notin> set ?line"
    by simp
  then have "scanFrom [] ?line = ([], True)"
    by (simp add: scanFrom_no_line_feed)
  then have "scanLines (''## Title'' @ [CHR 0x0A] @ ?line) = ([''## Title''], True)"
    by (simp add: scanLines_def dropCR_def MaxScanTokenSize_def)
  then show ?thesis
    by (simp add: parseSourceFile_def)
qed










lemma blockSections_WordCount:
  "map WordCount (blockSections n blocks) = map (\<lambda>(h, body). length (Fields (bodyText body))) blocks"
  by (induction n blocks rule: blockSections.induct) simp_all




lemma generateContextFiles_WordCount:
  "map FileWordCount (generateContextFiles orders i sections) = map WordCount sections"
  by (induction sections arbitrary: i) (simp_all add: Let_def)

lemma generateContextFiles_Content:
  "map FileContent (generateContextFiles orders i sections) = map Content sections"
  by (induction sections arbitrary: i) (simp_all add: Let_def)

lemmas segmentation_defs =
  parseSourceFile_def scanLines_def MaxScanTokenSize_def dropCR_def isHeader_def HasPrefix_def
  TrimSpace_def isSpace_def headerTitle_def TrimLeft_def closeSection_def Fields_def
  MinWordCountForFile_def bodyText_def








section \<open>The conversion\<close>



lemma analyzeAndGenerateFiles_nonempty:
  "analyzeAndGenerateFiles env = Inr contextFiles \<Longrightarrow> contextFiles \<noteq> []"
  by (auto simp: analyzeAndGenerateFiles_def split: sum.splits if_splits)




text \<open>
  C9. The analysis of a conversion never returns an empty list of context files, and
  the conversion never panics: the two divisions by the number of context files, which
  panic on an empty list, are reached with a list that is not empty only.
\<close>

theorem runConvert_never_divides_by_zero:
  "runConvert env \<noteq> Panic
   \<and> (\<forall>contextFiles. analyzeAndGenerateFiles env = Inr contextFiles \<longrightarrow> length contextFiles \<noteq> 0)
   \<and> (previewConversion contextFiles = Panic \<longleftrightarrow> length contextFiles = 0)
   \<and> (printConversionSuccess contextFiles = Panic \<longleftrightarrow> length contextFiles = 0)"
proof (intro conjI allI impI)
  show "length fs \<noteq> 0" if "analyzeAndGenerateFiles env = Inr fs" for fs
    using analyzeAndGenerateFiles_nonempty [OF that] by simp
  show "previewConversion contextFiles = Panic \<longleftrightarrow> length contextFiles = 0"
    by (simp add: previewConversion_def Let_def)
  show "printConversionSuccess contextFiles = Panic \<longleftrightarrow> length contextFiles = 0"
    by (simp add: printConversionSuccess_def Let_def)
  show "runConvert env \<noteq> Panic"
  proof (cases "analyzeAndGenerateFiles env")
    case (Inl e)
    then show ?thesis by (simp add: runConvert_def)
  next
    case (Inr fs)
    then have "fs \<noteq> []" by (rule analyzeAndGenerateFiles_nonempty)
    with Inr show ?thesis
      by (simp add: runConvert_def previewConversion_def printConversionSuccess_def Let_def)
  qed
qed

theorem runConvert_never_divides_by_zero_witness:
  "runConvert \<lparr>dryRun = True, noBackup = False, inputsValid = True, backupCreated = True,
      sourceIsMarkdown = True,
      sourceContent =
        Some (''## Setup'' @ [CHR 0x0A] @ ''one two three four five six seven eight nine ten''),
      mapOrders = (\<lambda>i. (techPatterns, funcPatterns)), conversionWritten = True\<rparr>
   \<noteq> Panic
   \<and> runConvert \<lparr>dryRun = True, noBackup = False, inputsValid = True, backupCreated = True,
      sourceIsMarkdown = True,
      sourceContent =
        Some (''## Setup'' @ [CHR 0x0A] @ ''one two three four five six seven eight nine ten''),
      mapOrders = (\<lambda>i. (techPatterns, funcPatterns)), conversionWritten = True\<rparr>
   = Done (Preview 1 12 12)"
proof
  show "runConvert \<lparr>dryRun = True, noBackup = False, inputsValid = True, backupCreated = True,
      sourceIsMarkdown = True,
      sourceContent =
        Some (''## Setup'' @ [CHR 0x0A] @ ''one two three four five six seven eight nine ten''),
      mapOrders = (\<lambda>i. (techPatterns, funcPatterns)), conversionWritten = True\<rparr>
   \<noteq> Panic"
    using runConvert_never_divides_by_zero by blast
  show "runConvert \<lparr>dryRun = True, noBackup = False, inputsValid = True, backupCreated = True,
      sourceIsMarkdown = True,
      sourceContent =
        Some (''## Setup'' @ [CHR 0x0A] @ ''one two three four five six seven eight nine ten''),
      mapOrders = (\<lambda>i. (techPatterns, funcPatterns)), conversionWritten = True\<rparr>
   = Done (Preview 1 12 12)"
    by (simp add: runConvert_def analyzeAndGenerateFiles_def AnalyzeAndGenerate_def
        previewConversion_def Let_def TokenEstimationRatio_def segmentation_defs)
qed

section \<open>The update scan\<close>

lemma map_insort_key: "map f (insort_key f x xs) = insort (f x) (map f xs)"
  by (induction xs) simp_all

lemma map_sort_key: "map f (sort_key f xs) = sort (map f xs)"
  by (induction xs) (simp_all add: map_insort_key)

lemma scanEntries_eq:
  "scanEntries entries
   = map (\<lambda>e. contextFileNamed (entryName e))
       (filter (\<lambda>e. \<not> entryIsDir e \<and> HasSuffix (entryName e) ''.md'') entries)"
  by (induction entries) simp_all

lemma chapterList_enumerate:
  "chapterList i contextFiles contextDirName
   = concat (map (\<lambda>(k, file).
                    itoa k @ ''. **'' @ TrimSuffix (FileName file) ''.md'' @ ''** - `''
                    @ contextDirName @ ''/'' @ FileName file @ ''`'' @ [CHR 0x0A])
               (enumerate (i + 1) contextFiles))"
  by (induction contextFiles arbitrary: i) simp_all

text \<open>
  C10. In update mode the chapter files are the entries of the context directory that
  are no directory and whose name ends in \<open>.md\<close>, each with its file name alone, in
  the sorted order of the file names (the order of bytes, in which \<^verbatim>\<open>os.ReadDir\<close>
  returns the entries). Whenever the update writes the index, the text written is the
  index file updated with exactly these files, and the lines of the chapter list are
  numbered from 1 in that sorted order.
\<close>

theorem scanContextDirectory_sorted_markdown_files:
  "(\<exists>chapterFiles. scanContextDirectory (Some entries) = Inr chapterFiles
      \<and> map FileName chapterFiles
        = sort (map entryName
                  (filter (\<lambda>e. \<not> entryIsDir e \<and> HasSuffix (entryName e) ''.md'') entries))
      \<and> chapterFiles = map contextFileNamed (map FileName chapterFiles)
      \<and> sorted (map FileName chapterFiles)
      \<and> (\<forall>env updated. contextDirEntries env = Some entries \<and> runUpdate env = Inr (Some updated)
            \<longrightarrow> (\<exists>template. indexContent env = Some template
                   \<and> updated = updatedContent template chapterFiles ''context''))
      \<and> chapterList 0 chapterFiles ''context''
        = concat (map (\<lambda>(k, file).
                    itoa k @ ''. **'' @ TrimSuffix (FileName file) ''.md'' @ ''** - `''
                    @ ''context'' @ ''/'' @ FileName file @ ''`'' @ [CHR 0x0A])
               (enumerate 1 chapterFiles)))"
proof -
  let ?md = "\<lambda>e. \<not> entryIsDir e \<and> HasSuffix (entryName e) ''.md''"
  let ?files = "scanEntries (sort_key entryName entries)"
  have scan: "scanContextDirectory (Some entries) = Inr ?files"
    by (simp add: scanContextDirectory_def ReadDir_def)
  have "map FileName ?files = map entryName (filter ?md (sort_key entryName entries))"
    by (simp add: scanEntries_eq contextFileNamed_def comp_def)
  also have "\<dots> = map entryName (sort_key entryName (filter ?md entries))"
    by (simp add: filter_sort)
  also have "\<dots> = sort (map entryName (filter ?md entries))"
    by (rule map_sort_key)
  finally have names: "map FileName ?files = sort (map entryName (filter ?md entries))" .
  have named: "?files = map contextFileNamed (map FileName ?files)"
    by (simp add: scanEntries_eq contextFileNamed_def comp_def)
  have sorted: "sorted (map FileName ?files)"
    unfolding names by simp
  have index: "\<exists>template. indexContent env = Some template
                 \<and> updated = updatedContent template ?files ''context''"
    if "contextDirEntries env = Some entries \<and> runUpdate env = Inr (Some updated)"
    for env updated
    using that scan
    by (auto simp: runUpdate_def UpdateTemplateWithChapters_def
        split: if_splits sum.splits option.splits)
  have list: "chapterList 0 ?files ''context''
        = concat (map (\<lambda>(k, file).
                    itoa k @ ''. **'' @ TrimSuffix (FileName file) ''.md'' @ ''** - `''
                    @ ''context'' @ ''/'' @ FileName file @ ''`'' @ [CHR 0x0A])
               (enumerate 1 ?files))"
    using chapterList_enumerate [of 0] by simp
  from scan names named sorted index list show ?thesis
    by blast
qed

theorem scanContextDirectory_sorted_markdown_files_witness:
  "scanContextDirectory
     (Some [\<lparr>entryName = ''setup.md'', entryIsDir = False\<rparr>,
            \<lparr>entryName = ''auth.md'', entryIsDir = False\<rparr>,
            \<lparr>entryName = ''old.md'', entryIsDir = True\<rparr>,
            \<lparr>entryName = ''Zebra.md'', entryIsDir = False\<rparr>,
            \<lparr>entryName = ''notes.txt'', entryIsDir = False\<rparr>])
   = Inr [contextFileNamed ''Zebra.md'', contextFileNamed ''auth.md'',
          contextFileNamed ''setup.md'']
   \<and> runUpdate \<lparr>projectPathValid = True, templateValid = True, contextDirExists = True,
       contextDirEntries =
         Some [\<lparr>entryName = ''setup.md'', entryIsDir = False\<rparr>,
               \<lparr>entryName = ''auth.md'', entryIsDir = False\<rparr>,
               \<lparr>entryName = ''old.md'', entryIsDir = True\<rparr>,
               \<lparr>entryName = ''Zebra.md'', entryIsDir = False\<rparr>,
               \<lparr>entryName = ''notes.txt'', entryIsDir = False\<rparr>],
       indexFileKnown = True, forceUpdate = False, updateNeeded = Some True,
       templateConfigured = True, templateApplied = True,
       indexContent = Some (''# Chapters'' @ [CHR 0x0A] @ contextPlaceholder),
       indexWritable = True\<rparr>
     = Inr (Some (''# Chapters'' @ [CHR 0x0A]
          @ ''1. **Zebra** - `context/Zebra.md`'' @ [CHR 0x0A]
          @ ''2. **auth** - `context/auth.md`'' @ [CHR 0x0A]
          @ ''3. **setup** - `context/setup.md`''))"
proof
  let ?entries = "[\<lparr>entryName = ''setup.md'', entryIsDir = False\<rparr>,
            \<lparr>entryName = ''auth.md'', entryIsDir = False\<rparr>,
            \<lparr>entryName = ''old.md'', entryIsDir = True\<rparr>,
            \<lparr>entryName = ''Zebra.md'', entryIsDir = False\<rparr>,
            \<lparr>entryName = ''notes.txt'', entryIsDir = False\<rparr>]"
  from scanContextDirectory_sorted_markdown_files [of ?entries]
  obtain chapterFiles where scan: "scanContextDirectory (Some ?entries) = Inr chapterFiles"
    and names: "map FileName chapterFiles
        = sort (map entryName
                  (filter (\<lambda>e. \<not> entryIsDir e \<and> HasSuffix (entryName e) ''.md'') ?entries))"
    and named: "chapterFiles = map contextFileNamed (map FileName chapterFiles)"
    by blast
  have "sort (map entryName
                  (filter (\<lambda>e. \<not> entryIsDir e \<and> HasSuffix (entryName e) ''.md'') ?entries))
        = [''Zebra.md'', ''auth.md'', ''setup.md'']"
    by code_simp
  with names named have "chapterFiles = map contextFileNamed [''Zebra.md'', ''auth.md'', ''setup.md'']"
    by simp
  with scan show "scanContextDirectory (Some ?entries)
     = Inr [contextFileNamed ''Zebra.md'', contextFileNamed ''auth.md'',
            contextFileNamed ''setup.md'']"
    by simp
  show "runUpdate \<lparr>projectPathValid = True, templateValid = True, contextDirExists = True,
       contextDirEntries = Some ?entries,
       indexFileKnown = True, forceUpdate = False, updateNeeded = Some True,
       templateConfigured = True, templateApplied = True,
       indexContent = Some (''# Chapters'' @ [CHR 0x0A] @ contextPlaceholder),
       indexWritable = True\<rparr>
     = Inr (Some (''# Chapters'' @ [CHR 0x0A]
          @ ''1. **Zebra** - `context/Zebra.md`'' @ [CHR 0x0A]
          @ ''2. **auth** - `context/auth.md`'' @ [CHR 0x0A]
          @ ''3. **setup** - `context/setup.md`''))"
    by code_simp
qed

section \<open>The generated file names\<close>

lemma set_Join: "set (Join ws sep) \<subseteq> \<Union> (set ` set ws) \<union> set sep"
  by (induction ws sep rule: Join.induct) auto

lemma fieldsFrom_chars:
  "w \<in> set (fieldsFrom cur s) \<Longrightarrow> set w \<subseteq> set cur \<union> {c \<in> set s. \<not> isSpace c}"
proof (induction s arbitrary: cur)
  case Nil
  then show ?case by (auto split: if_splits)
next
  case (Cons c s)
  show ?case
  proof (cases "isSpace c")
    case True
    with Cons.prems have "w = cur \<or> w \<in> set (fieldsFrom [] s)"
      by (auto split: if_splits)
    then show ?thesis
      using Cons.IH [of "[]"] by auto
  next
    case False
    with Cons.prems have "w \<in> set (fieldsFrom (cur @ [c]) s)"
      by simp
    then have "set w \<subseteq> set (cur @ [c]) \<union> {c \<in> set s. \<not> isSpace c}"
      by (rule Cons.IH)
    with False show ?thesis by auto
  qed
qed

lemma Fields_chars: "w \<in> set (Fields s) \<Longrightarrow> set w \<subseteq> {c \<in> set s. \<not> isSpace c}"
  using fieldsFrom_chars [of w "[]" s] by (simp add: Fields_def)

lemma toLowerChar_plain:
  "c \<in> plainTitleChars \<Longrightarrow>
   toLowerChar c \<in> identifierChars \<or> isSpace (toLowerChar c) \<or> toLowerChar c \<in> replacedChars"
proof -
  have "\<forall>c \<in> plainTitleChars.
      toLowerChar c \<in> identifierChars \<or> isSpace (toLowerChar c) \<or> toLowerChar c \<in> replacedChars"
    by code_simp
  then show "c \<in> plainTitleChars \<Longrightarrow>
   toLowerChar c \<in> identifierChars \<or> isSpace (toLowerChar c) \<or> toLowerChar c \<in> replacedChars"
    by blast
qed

lemma extractTitleDescriptor_chars:
  assumes "set title \<subseteq> plainTitleChars"
  shows "set (extractTitleDescriptor title) \<subseteq> identifierChars \<union> replacedChars"
proof -
  let ?words = "Fields (ToLower title)"
  let ?meaningful = "filter (\<lambda>word. \<not> (word \<in> set stopWords) \<and> length word > 2) ?words"
  have words: "set w \<subseteq> identifierChars \<union> replacedChars" if "w \<in> set ?words" for w
  proof
    fix c assume "c \<in> set w"
    then have "c \<in> set (ToLower title)" "\<not> isSpace c"
      using Fields_chars [OF that] by auto
    then obtain c0 where "c0 \<in> set title" "c = toLowerChar c0"
      by (auto simp: ToLower_def)
    with assms toLowerChar_plain [of c0] \<open>\<not> isSpace c\<close>
    show "c \<in> identifierChars \<union> replacedChars" by auto
  qed
  have joined: "set (Join ws ''-'') \<subseteq> identifierChars \<union> replacedChars"
    if "set ws \<subseteq> set ?words" for ws
  proof -
    have "\<Union> (set ` set ws) \<subseteq> identifierChars \<union> replacedChars"
      using words that by blast
    moreover have "set ''-'' \<subseteq> identifierChars"
      by (simp add: identifierChars_def)
    ultimately show ?thesis
      using set_Join [of ws "''-''"] by blast
  qed
  have "set (take 3 ?meaningful) \<subseteq> set ?words"
    by (auto dest: in_set_takeD)
  then have "set (Join (take 3 ?meaningful) ''-'') \<subseteq> identifierChars \<union> replacedChars"
    by (rule joined)
  moreover have "set (Join ?meaningful ''-'') \<subseteq> identifierChars \<union> replacedChars"
    by (rule joined) auto
  ultimately show ?thesis
    unfolding extractTitleDescriptor_def Let_def by presburger
qed

lemma firstMatch_in: "firstMatch order content = [] \<or> firstMatch order content \<in> snd ` set order"
  by (induction order content rule: firstMatch.induct) auto

lemma techPatterns_chars: "\<forall>(pattern, descriptor) \<in> set techPatterns. set descriptor \<subseteq> identifierChars"
  by code_simp

lemma funcPatterns_chars: "\<forall>(pattern, descriptor) \<in> set funcPatterns. set descriptor \<subseteq> identifierChars"
  by code_simp

lemma firstMatch_chars:
  assumes "set order \<subseteq> set table"
    and "\<forall>(pattern, descriptor) \<in> set table. set descriptor \<subseteq> identifierChars"
  shows "set (firstMatch order content) \<subseteq> identifierChars"
  using firstMatch_in [of order content] assms by fastforce

subsection \<open>SanitizeFileName\<close>

lemma ReplaceAll_char: "ReplaceAll s [c] [d] = map (\<lambda>x. if x = c then d else x) s"
proof (induction s)
  case Nil
  then show ?case by (simp add: ReplaceAll.simps)
next
  case (Cons x s)
  show ?case
  proof (cases "x = c")
    case True
    then have "ReplaceAll (x # s) [c] [d] = [d] @ ReplaceAll (drop (length [c]) (x # s)) [c] [d]"
      by (simp add: ReplaceAll.simps)
    with True Cons show ?thesis by simp
  next
    case False
    then have "ReplaceAll (x # s) [c] [d] = x # ReplaceAll s [c] [d]"
      by (simp add: ReplaceAll.simps)
    with False Cons show ?thesis by simp
  qed
qed

lemma set_replace_chars:
  "d \<notin> set cs \<Longrightarrow>
   set (foldl (\<lambda>name c. ReplaceAll name [c] [d]) s cs) \<subseteq> (set s - set cs) \<union> {d}"
proof (induction cs arbitrary: s)
  case Nil
  then show ?case by auto
next
  case (Cons c cs)
  then have "set (foldl (\<lambda>name c. ReplaceAll name [c] [d]) (ReplaceAll s [c] [d]) cs)
             \<subseteq> (set (ReplaceAll s [c] [d]) - set cs) \<union> {d}"
    by simp
  moreover have "set (ReplaceAll s [c] [d]) \<subseteq> (set s - {c}) \<union> {d}"
    by (auto simp: ReplaceAll_char)
  ultimately show ?case
    by auto
qed

lemma set_collapseDashes: "set (collapseDashes inRun s) \<subseteq> set s"
  by (induction inRun s rule: collapseDashes.induct) auto

lemma set_Trim: "set (Trim s cutset) \<subseteq> set s"
proof -
  have "set (dropWhile (\<lambda>c. c \<in> set cutset) (rev (dropWhile (\<lambda>c. c \<in> set cutset) s)))
        \<subseteq> set (rev (dropWhile (\<lambda>c. c \<in> set cutset) s))"
    by (rule set_dropWhileD [THEN subsetI])
  also have "\<dots> \<subseteq> set s"
    using set_dropWhileD by fastforce
  finally show ?thesis
    by (simp add: Trim_def)
qed

lemma set_replaceDangerous:
  "set (replaceDangerous s) \<subseteq> (set s - replacedChars) \<union> {CHR ''-''}"
proof -
  have "replaceDangerous s
        = foldl (\<lambda>name c. ReplaceAll name [c] ''-'') s
            (''/'' @ [CHR 0x5C] @ '':*?'' @ [CHR 0x22] @ ''<>|'')"
    by (simp add: replaceDangerous_def)
  moreover have "CHR ''-'' \<notin> set (''/'' @ [CHR 0x5C] @ '':*?'' @ [CHR 0x22] @ ''<>|'')"
    by simp
  ultimately show ?thesis
    unfolding replacedChars_def using set_replace_chars by metis
qed

lemma SanitizeFileName_not_empty: "SanitizeFileName s \<noteq> []"
  by (simp add: SanitizeFileName_def Let_def MaxFileNameLength_def)

lemma SanitizeFileName_Nil: "SanitizeFileName [] = ''unnamed''"
  by (simp add: SanitizeFileName_def replaceDangerous_def Trim_def ReplaceAll.simps)

lemma SanitizeFileName_chars:
  assumes "set s \<subseteq> identifierChars \<union> replacedChars"
  shows "set (SanitizeFileName s) \<subseteq> identifierChars"
proof -
  have dash: "CHR ''-'' \<in> identifierChars" and unnamed: "set ''unnamed'' \<subseteq> identifierChars"
    by (simp_all add: identifierChars_def)
  let ?t = "Trim (collapseDashes False (replaceDangerous s)) ''-''"
  have "set ?t \<subseteq> set (replaceDangerous s)"
    using set_Trim set_collapseDashes by fast
  also have "\<dots> \<subseteq> identifierChars"
    using set_replaceDangerous [of s] assms dash by auto
  finally have t: "set ?t \<subseteq> identifierChars" .
  then have "set (take MaxFileNameLength ?t) \<subseteq> identifierChars"
    using set_take_subset by fast
  with t unnamed show ?thesis
    unfolding SanitizeFileName_def Let_def by (simp only: split: if_splits) auto
qed

text \<open>
  C6, as amended. For every section whose title has only ASCII letters, digits, dashes,
  ASCII white space and the nine characters that the sanitising replaces, and for every
  order in which the two map loops visit entries of their tables, the generated
  identifier is a non-empty string of characters from \<open>[a-z0-9-]\<close> followed by the
  suffix \<open>.md\<close>.
\<close>

theorem generateDescriptiveFileName_identifier_chars:
  assumes title: "set (Title section) \<subseteq> plainTitleChars"
    and techOrder: "rangeOrder techPatterns techOrder"
    and funcOrder: "rangeOrder funcPatterns funcOrder"
  shows "\<exists>stem. generateDescriptiveFileName techOrder funcOrder section = stem @ ''.md''
           \<and> stem \<noteq> [] \<and> set stem \<subseteq> identifierChars"
proof -
  let ?content = "ToLower (Title section @ '' '' @ Content section)"
  let ?titleDesc = "extractTitleDescriptor (Title section)"
  let ?techDesc = "extractTechnologyDescriptor techOrder ?content"
  let ?funcDesc = "extractFunctionDescriptor funcOrder ?content"
  let ?d1 = "if ?titleDesc \<noteq> [] then [?titleDesc] else []"
  let ?d2 = "if ?techDesc \<noteq> [] then ?d1 @ [?techDesc] else ?d1"
  let ?d3 = "if ?funcDesc \<noteq> [] then ?d2 @ [?funcDesc] else ?d2"
  let ?safe = "SanitizeFileName (Join ?d3 ''-'')"
  let ?stem = "if length ?safe > MaxDescriptiveLength then take MaxDescriptiveLength ?safe else ?safe"
  have tech: "set techOrder \<subseteq> set techPatterns" and func: "set funcOrder \<subseteq> set funcPatterns"
    using techOrder funcOrder by (simp_all add: rangeOrder_def)
  have t: "set ?titleDesc \<subseteq> identifierChars \<union> replacedChars"
    using title by (rule extractTitleDescriptor_chars)
  have te: "set ?techDesc \<subseteq> identifierChars"
    unfolding extractTechnologyDescriptor_def
    using tech techPatterns_chars by (rule firstMatch_chars)
  have fu: "set ?funcDesc \<subseteq> identifierChars"
    unfolding extractFunctionDescriptor_def
    using func funcPatterns_chars by (rule firstMatch_chars)
  have "\<Union> (set ` set ?d3) \<subseteq> identifierChars \<union> replacedChars"
    using t te fu by auto
  moreover have "set ''-'' \<subseteq> identifierChars"
    by (simp add: identifierChars_def)
  ultimately have "set (Join ?d3 ''-'') \<subseteq> identifierChars \<union> replacedChars"
    using set_Join [of ?d3 "''-''"] by blast
  then have safe: "set ?safe \<subseteq> identifierChars"
    by (rule SanitizeFileName_chars)
  have ne: "?safe \<noteq> []"
    by (rule SanitizeFileName_not_empty)
  have stem_chars: "set ?stem \<subseteq> identifierChars"
    using safe set_take_subset [of MaxDescriptiveLength ?safe] by auto
  have stem_ne: "?stem \<noteq> []"
    using ne by (simp add: MaxDescriptiveLength_def)
  have "generateDescriptiveFileName techOrder funcOrder section
        = (if ?stem = [] then ''general-context'' else ?stem) @ ''.md''"
    by (simp only: generateDescriptiveFileName_def Let_def)
  with stem_ne have "generateDescriptiveFileName techOrder funcOrder section = ?stem @ ''.md''"
    by presburger
  with stem_ne stem_chars show ?thesis
    by blast
qed

theorem generateDescriptiveFileName_identifier_chars_witness:
  "generateDescriptiveFileName techPatterns funcPatterns
     \<lparr>Title = ''API: Auth/Login Flow'',
      Content = ''Clients send a JWT with every request after the login has succeeded'',
      StartLine = 1, EndLine = 2, WordCount = 12\<rparr>
   = ''api-auth-login-flow-oauth-authentication'' @ ''.md''
   \<and> set ''api-auth-login-flow-oauth-authentication'' \<subseteq> identifierChars"
proof -
  let ?section = "\<lparr>Title = ''API: Auth/Login Flow'',
      Content = ''Clients send a JWT with every request after the login has succeeded'',
      StartLine = 1, EndLine = 2, WordCount = 12\<rparr>"
  have title: "set (Title ?section) \<subseteq> plainTitleChars"
    by code_simp
  have tech: "rangeOrder techPatterns techPatterns" and func: "rangeOrder funcPatterns funcPatterns"
    by code_simp+
  have name: "generateDescriptiveFileName techPatterns funcPatterns ?section
              = ''api-auth-login-flow-oauth-authentication'' @ ''.md''"
    by code_simp
  from generateDescriptiveFileName_identifier_chars [OF title tech func]
  obtain stem where "generateDescriptiveFileName techPatterns funcPatterns ?section = stem @ ''.md''"
    and "set stem \<subseteq> identifierChars"
    by blast
  with name show ?thesis
    by simp
qed

text \<open>
  C6 as it is written fails: a character of the title that is none of the nine replaced
  ones stays in the identifier.
\<close>

theorem generateDescriptiveFileName_identifier_chars_counterexample:
  "generateDescriptiveFileName techPatterns funcPatterns
     \<lparr>Title = ''Q&A (Draft)'',
      Content = ''one two three four five six seven eight nine ten'',
      StartLine = 1, EndLine = 2, WordCount = 10\<rparr>
   = ''q&a-(draft)'' @ ''.md''
   \<and> \<not> set ''q&a-(draft)'' \<subseteq> identifierChars"
  by code_simp

text \<open>
  C1 fails on the program. The two tables are Go maps, and the loop that returns the
  descriptor of the first matching pattern ranges over the map, in an order that changes
  between two calls. For a section that matches two technology patterns, two orders of
  the same map give two different identifiers.
\<close>

theorem generateDescriptiveFileName_depends_on_map_order:
  "rangeOrder techPatterns techPatterns \<and> rangeOrder techPatterns (rev techPatterns)
   \<and> rangeOrder funcPatterns funcPatterns
   \<and> generateDescriptiveFileName techPatterns funcPatterns
       \<lparr>Title = ''Cache Layer'',
        Content = ''redis runs in docker next to the workers of every queue'',
        StartLine = 1, EndLine = 2, WordCount = 11\<rparr>
     = ''cache-layer-redis.md''
   \<and> generateDescriptiveFileName (rev techPatterns) funcPatterns
       \<lparr>Title = ''Cache Layer'',
        Content = ''redis runs in docker next to the workers of every queue'',
        StartLine = 1, EndLine = 2, WordCount = 11\<rparr>
     = ''cache-layer-docker.md''"
  by code_simp

lemma generateDescriptiveFileName_no_descriptor:
  assumes "extractTitleDescriptor (Title section) = []"
    and "extractTechnologyDescriptor techOrder
           (ToLower (Title section @ '' '' @ Content section)) = []"
    and "extractFunctionDescriptor funcOrder
           (ToLower (Title section @ '' '' @ Content section)) = []"
  shows "generateDescriptiveFileName techOrder funcOrder section = ''unnamed.md''"
  using assms
  by (simp add: generateDescriptiveFileName_def SanitizeFileName_Nil MaxDescriptiveLength_def)

text \<open>
  C3 fails on the program. \<^verbatim>\<open>SanitizeFileName\<close> returns \<open>unnamed\<close> for the empty
  string, so the file name is never empty when \<^verbatim>\<open>generateDescriptiveFileName\<close> tests
  it, and the default \<open>general-context\<close> is never taken: a section with no
  descriptor at all is named \<open>unnamed.md\<close>.
\<close>

theorem generateDescriptiveFileName_empty_descriptors:
  "extractTitleDescriptor ''To Do'' = []
   \<and> extractTechnologyDescriptor techPatterns
       (ToLower (''To Do'' @ '' '' @ ''one two three four five six seven eight nine ten'')) = []
   \<and> extractFunctionDescriptor funcPatterns
       (ToLower (''To Do'' @ '' '' @ ''one two three four five six seven eight nine ten'')) = []
   \<and> SanitizeFileName [] = ''unnamed''
   \<and> generateDescriptiveFileName techPatterns funcPatterns
       \<lparr>Title = ''To Do'', Content = ''one two three four five six seven eight nine ten'',
        StartLine = 1, EndLine = 2, WordCount = 10\<rparr>
     = ''unnamed.md''"
  by code_simp

end
